theory Spec2Isabelle
  imports Main "HOL-Library.Sublist" "HOL-Library.Multiset"
begin

chapter \<open>Dashboard specification builder: conversation engine, change interpreter,
  project lifecycle and task ordering\<close>

text \<open>
  The development embeds the TypeScript components \<^verbatim>\<open>RequirementsChat\<close>,
  \<^verbatim>\<open>DesignRequirementsChat\<close>, \<^verbatim>\<open>ProjectEditor\<close> and \<^verbatim>\<open>TasksManager\<close>.
  Component state and the rows of the relational store are explicit values that every
  handler takes and returns. Calls that a handler fires at the persistence gateway are
  returned as a list of \<open>call\<close> values, in the order in which the handler issues them.
  Message texts shown to the user are not part of the model.
\<close>

section \<open>Strings\<close>

text \<open>
  A JavaScript string is modelled as a \<^typ>\<open>string\<close> whose characters are the code units
  0 to 255. On that range \<^verbatim>\<open>String.prototype.trim\<close> and the regular expression class
  \<^verbatim>\<open>\s\<close> remove exactly the characters below, and \<^verbatim>\<open>toLowerCase\<close> maps
  \<^verbatim>\<open>A-Z\<close> and the accented capitals 0xC0 to 0xDE (0xD7, the multiplication sign, apart).
\<close>

definition isWhiteSpace :: "char \<Rightarrow> bool" where
  "isWhiteSpace c =
     (c \<in> set [CHR 0x09, CHR 0x0A, CHR 0x0B, CHR 0x0C, CHR 0x0D, CHR 0x20, CHR 0xA0])"

definition isLineTerminator :: "char \<Rightarrow> bool" where
  "isLineTerminator c = (c \<in> set [CHR 0x0A, CHR 0x0D])"

definition toLowerChar :: "char \<Rightarrow> char" where
  "toLowerChar c =
     (let n = (of_char c :: nat) in
      if (65 \<le> n \<and> n \<le> 90) \<or> (192 \<le> n \<and> n \<le> 222 \<and> n \<noteq> 215)
      then char_of (n + 32) else c)"

definition toLowerCase :: "string \<Rightarrow> string" where
  "toLowerCase s = map toLowerChar s"

definition trim :: "string \<Rightarrow> string" where
  "trim s = rev (dropWhile isWhiteSpace (rev (dropWhile isWhiteSpace s)))"

text \<open>\<^verbatim>\<open>s.split(sep)\<close> for a one-character separator: the empty string gives one empty
  token, and a separator at either end gives an empty token there.\<close>

primrec split :: "char \<Rightarrow> string \<Rightarrow> string list" where
  "split sep [] = [[]]"
| "split sep (c # cs) =
     (if c = sep then [] # split sep cs
      else (c # hd (split sep cs)) # tl (split sep cs))"

text \<open>\<^verbatim>\<open>s.includes(sub)\<close> and \<^verbatim>\<open>s.startsWith(sub)\<close>.\<close>

primrec includes_str :: "string \<Rightarrow> string \<Rightarrow> bool" where
  "includes_str [] sub = (sub = [])"
| "includes_str (c # cs) sub = (prefix sub (c # cs) \<or> includes_str cs sub)"

definition startsWith :: "string \<Rightarrow> string \<Rightarrow> bool" where
  "startsWith s sub = prefix sub s"

text \<open>\<^verbatim>\<open>xs.join(sep)\<close>.\<close>

fun join :: "string \<Rightarrow> string list \<Rightarrow> string" where
  "join sep [] = []"
| "join sep [x] = x"
| "join sep (x # y # ys) = x @ sep @ join sep (y # ys)"

text \<open>Decimal rendering of an integer inside a template literal.\<close>

fun string_of_nat :: "nat \<Rightarrow> string" where
  "string_of_nat n =
     (if n < 10 then [char_of (48 + n)]
      else string_of_nat (n div 10) @ [char_of (48 + n mod 10)])"

definition string_of_int :: "int \<Rightarrow> string" where
  "string_of_int i =
     (if i < 0 then CHR ''-'' # string_of_nat (nat (- i)) else string_of_nat (nat i))"

text \<open>Truthiness of an optional string (\<^verbatim>\<open>undefined\<close>, \<^verbatim>\<open>null\<close> and \<^verbatim>\<open>''\<close> are falsy)
  and of an optional array (every array is truthy, the empty one too).\<close>

definition truthy_str :: "string option \<Rightarrow> bool" where
  "truthy_str v = (case v of None \<Rightarrow> False | Some s \<Rightarrow> s \<noteq> [])"

definition truthy_list :: "'a list option \<Rightarrow> bool" where
  "truthy_list v = (case v of None \<Rightarrow> False | Some _ \<Rightarrow> True)"

section \<open>Regular expressions of the change interpreter\<close>

text \<open>
  The patterns of \<^verbatim>\<open>extractValue\<close> are sequences of single-character classes under a
  greedy quantifier, one group of alternative words and one capture group. All of them
  carry the flag \<^verbatim>\<open>i\<close>, so a literal letter matches in either case. The matcher is the
  backtracking one of the language: at a quantifier the longest repetition is tried
  first, and the first alternative that lets the rest of the pattern match wins.
\<close>

datatype cls = Lit char | WS | Dot

datatype quant = One | Opt | Star | Plus

datatype item = Atom cls quant | Words "string list" | Open | Close

fun cls_ok :: "cls \<Rightarrow> char \<Rightarrow> bool" where
  "cls_ok (Lit p) c = (toLowerChar c = toLowerChar p)"
| "cls_ok WS c = isWhiteSpace c"
| "cls_ok Dot c = (\<not> isLineTerminator c)"

primrec first_some :: "('a \<Rightarrow> 'b option) \<Rightarrow> 'a list \<Rightarrow> 'b option" where
  "first_some f [] = None"
| "first_some f (x # xs) = (case f x of Some r \<Rightarrow> Some r | None \<Rightarrow> first_some f xs)"

text \<open>The state of a match: the open mark of the capture group (the input left when the
  group was entered) and the text captured so far. A successful match returns the
  capture and the input left after the match.\<close>

type_synonym mresult = "string option \<times> string"

type_synonym mcont = "string \<Rightarrow> string option \<Rightarrow> string option \<Rightarrow> mresult option"

definition run_len :: "cls \<Rightarrow> string \<Rightarrow> nat" where
  "run_len c s = length (takeWhile (cls_ok c) s)"

fun item_step :: "item \<Rightarrow> mcont \<Rightarrow> mcont" where
  "item_step (Atom c One) k s mk cap =
     (case s of [] \<Rightarrow> None | x # xs \<Rightarrow> if cls_ok c x then k xs mk cap else None)"
| "item_step (Atom c Opt) k s mk cap =
     first_some (\<lambda>n. k (drop n s) mk cap) (rev [0 ..< Suc (min 1 (run_len c s))])"
| "item_step (Atom c Star) k s mk cap =
     first_some (\<lambda>n. k (drop n s) mk cap) (rev [0 ..< Suc (run_len c s)])"
| "item_step (Atom c Plus) k s mk cap =
     first_some (\<lambda>n. k (drop n s) mk cap) (rev [1 ..< Suc (run_len c s)])"
| "item_step (Words ws) k s mk cap =
     first_some (\<lambda>w. if prefix (toLowerCase w) (toLowerCase (take (length w) s))
                      then k (drop (length w) s) mk cap else None) ws"
| "item_step Open k s mk cap = k s (Some s) cap"
| "item_step Close k s mk cap =
     k s mk (case mk of None \<Rightarrow> cap | Some m \<Rightarrow> Some (take (length m - length s) m))"

primrec match_here :: "item list \<Rightarrow> mcont" where
  "match_here [] = (\<lambda>s mk cap. Some (cap, s))"
| "match_here (i # r) = item_step i (match_here r)"

text \<open>An unanchored search tries every start position from the left; the result is the
  number of characters before the match, the capture and the input after the match.\<close>

definition search :: "item list \<Rightarrow> string \<Rightarrow> (nat \<times> string option \<times> string) option" where
  "search p s =
     first_some (\<lambda>n. case match_here p (drop n s) None None of
                        None \<Rightarrow> None | Some (cap, rest) \<Rightarrow> Some (n, cap, rest))
       [0 ..< Suc (length s)]"

text \<open>\<^verbatim>\<open>s.match(re)\<close> read at group 1, for a pattern without the flag \<^verbatim>\<open>g\<close>.\<close>

definition match_group1 :: "item list \<Rightarrow> string \<Rightarrow> string option" where
  "match_group1 p s = (case search p s of None \<Rightarrow> None | Some (n, cap, rest) \<Rightarrow> cap)"

text \<open>\<^verbatim>\<open>s.replace(re, '')\<close> for a pattern without the flag \<^verbatim>\<open>g\<close>: the first match is
  cut out. \<open>replace_anchored\<close> is the same for a pattern that starts with \<^verbatim>\<open>^\<close>.\<close>

definition replace_first :: "item list \<Rightarrow> string \<Rightarrow> string" where
  "replace_first p s = (case search p s of None \<Rightarrow> s | Some (n, cap, rest) \<Rightarrow> take n s @ rest)"

definition replace_anchored :: "item list \<Rightarrow> string \<Rightarrow> string" where
  "replace_anchored p s = (case match_here p s None None of None \<Rightarrow> s | Some (cap, rest) \<Rightarrow> rest)"

definition lits :: "string \<Rightarrow> item list" where
  "lits w = map (\<lambda>c. Atom (Lit c) One) w"

section \<open>Functional requirements conversation (RequirementsChat)\<close>

text \<open>
  The conversation data is a \<^verbatim>\<open>Record<string, any>\<close>; its keys are the fields below, a
  key that is absent reads \<^verbatim>\<open>undefined\<close> (\<open>None\<close>). Steps are the strings of the source.
  Identifiers of rows are opaque non-empty keys of the store and are modelled as numbers.
\<close>

type_synonym uuid = nat

record fdata =
  fd_name :: "string option"
  fd_description :: "string option"
  fd_audience :: "string option"
  fd_data_sources :: "string list option"
  fd_metrics :: "string list option"
  fd_tabs :: "string option"
  fd_filters :: "string list option"
  fd_has_appendix :: "bool option"
  fd_has_metric_logic :: "bool option"
  fd_additional_requirements :: "string list option"

definition empty_fdata :: fdata where
  "empty_fdata = \<lparr>fd_name = None, fd_description = None, fd_audience = None,
     fd_data_sources = None, fd_metrics = None, fd_tabs = None, fd_filters = None,
     fd_has_appendix = None, fd_has_metric_logic = None, fd_additional_requirements = None\<rparr>"

datatype jsval = JStr string | JList "string list" | JBool bool

text \<open>The calls a handler makes: the callback into the project editor and the
  component's own save functions, each with its argument.\<close>

datatype call =
    OnProjectUpdate "(string \<times> jsval) list"
  | SaveFunctionalRequirements "(string \<times> jsval) list"
  | SaveTabs string
  | SaveFilters "string list"
  | SaveAdditionalRequirement string
  | SaveDesignRequirements "(string \<times> jsval) list"

record 'd cstate =
  step :: string
  data :: 'd

type_synonym fstate = "fdata cstate"

definition determineNextStep :: "fdata \<Rightarrow> string" where
  "determineNextStep d =
     (if \<not> truthy_str (fd_name d) then ''name''
      else if \<not> truthy_str (fd_description d) then ''description''
      else if \<not> truthy_str (fd_audience d) then ''audience''
      else if \<not> truthy_list (fd_data_sources d) then ''data_sources''
      else if \<not> truthy_list (fd_metrics d) then ''metrics''
      else if \<not> truthy_str (fd_tabs d) then ''tabs''
      else if \<not> truthy_list (fd_filters d) then ''filters''
      else if fd_has_appendix d = None then ''appendix''
      else if fd_has_metric_logic d = None then ''metric_logic''
      else ''additional'')"

subsection \<open>The change interpreter\<close>

text \<open>The three patterns of \<^verbatim>\<open>extractValue\<close>, for a field given as a pattern itself:
  \<^verbatim>\<open>field\s+to\s+(.+)\<close>, \<^verbatim>\<open>(?:change|update)\s+(.+)\<close> with \<^verbatim>\<open>^field\s*\<close> cut from the
  capture, and \<^verbatim>\<open>.*field\s*\<close> cut from the input.\<close>

definition toMatch_re :: "item list \<Rightarrow> item list" where
  "toMatch_re field =
     field @ [Atom WS Plus] @ lits ''to'' @ [Atom WS Plus, Open, Atom Dot Plus, Close]"

definition changeMatch_re :: "item list" where
  "changeMatch_re = [Words [''change'', ''update''], Atom WS Plus, Open, Atom Dot Plus, Close]"

definition extractValue :: "string \<Rightarrow> item list \<Rightarrow> string" where
  "extractValue userInput field =
     (case match_group1 (toMatch_re field) userInput of
        Some v \<Rightarrow> v
      | None \<Rightarrow>
         (case match_group1 changeMatch_re userInput of
            Some v \<Rightarrow> trim (replace_anchored (field @ [Atom WS Star]) v)
          | None \<Rightarrow> trim (replace_first ([Atom Dot Star] @ field @ [Atom WS Star]) userInput)))"

text \<open>The field patterns as the source passes them: \<^verbatim>\<open>name\<close>, \<^verbatim>\<open>description\<close>,
  \<^verbatim>\<open>audience\<close>, \<^verbatim>\<open>data\s*source[s]?\<close>, \<^verbatim>\<open>metric[s]?\<close>, \<^verbatim>\<open>tab[s]?\<close>, \<^verbatim>\<open>filter[s]?\<close>.\<close>

definition re_name :: "item list" where
  "re_name = lits ''name''"

definition re_description :: "item list" where
  "re_description = lits ''description''"

definition re_audience :: "item list" where
  "re_audience = lits ''audience''"

definition re_data_sources :: "item list" where
  "re_data_sources = lits ''data'' @ [Atom WS Star] @ lits ''source'' @ [Atom (Lit CHR ''s'') Opt]"

definition re_metrics :: "item list" where
  "re_metrics = lits ''metric'' @ [Atom (Lit CHR ''s'') Opt]"

definition re_tabs :: "item list" where
  "re_tabs = lits ''tab'' @ [Atom (Lit CHR ''s'') Opt]"

definition re_filters :: "item list" where
  "re_filters = lits ''filter'' @ [Atom (Lit CHR ''s'') Opt]"

definition handleChangeRequest :: "string \<Rightarrow> fdata \<Rightarrow> fstate \<times> call list" where
  "handleChangeRequest userInput d =
     (let input = toLowerCase userInput;
          newName = extractValue userInput re_name;
          newDesc = extractValue userInput re_description;
          newAudience = extractValue userInput re_audience;
          sources = extractValue userInput re_data_sources;
          newSources = map trim (split CHR '','' sources);
          metrics = extractValue userInput re_metrics;
          newMetrics = map trim (split CHR '','' metrics);
          newTabs = extractValue userInput re_tabs;
          filters = extractValue userInput re_filters;
          newFilters = map trim (split CHR '','' filters)
      in
      if includes_str input ''name'' \<and> newName \<noteq> [] then
        (\<lparr>step = ''additional'', data = d\<lparr>fd_name := Some newName\<rparr>\<rparr>,
         [OnProjectUpdate [(''name'', JStr newName)], SaveFunctionalRequirements []])
      else if includes_str input ''description'' \<and> newDesc \<noteq> [] then
        (\<lparr>step = ''additional'', data = d\<lparr>fd_description := Some newDesc\<rparr>\<rparr>,
         [OnProjectUpdate [(''description'', JStr newDesc)]])
      else if includes_str input ''audience'' \<and> newAudience \<noteq> [] then
        (\<lparr>step = ''additional'', data = d\<lparr>fd_audience := Some newAudience\<rparr>\<rparr>,
         [OnProjectUpdate [(''audience'', JStr newAudience)]])
      else if includes_str input ''data source'' \<and> sources \<noteq> [] then
        (\<lparr>step = ''additional'', data = d\<lparr>fd_data_sources := Some newSources\<rparr>\<rparr>,
         [SaveFunctionalRequirements [(''data_sources'', JList newSources)]])
      else if includes_str input ''metric'' \<and> metrics \<noteq> [] then
        (\<lparr>step = ''additional'', data = d\<lparr>fd_metrics := Some newMetrics\<rparr>\<rparr>,
         [SaveFunctionalRequirements [(''metrics'', JList newMetrics)]])
      else if includes_str input ''tab'' \<and> newTabs \<noteq> [] then
        (\<lparr>step = ''additional'', data = d\<lparr>fd_tabs := Some newTabs\<rparr>\<rparr>, [SaveTabs newTabs])
      else if includes_str input ''filter'' \<and> filters \<noteq> [] then
        (\<lparr>step = ''additional'', data = d\<lparr>fd_filters := Some newFilters\<rparr>\<rparr>,
         [SaveFilters newFilters])
      else (\<lparr>step = ''additional'', data = d\<rparr>, []))"

subsection \<open>One answer\<close>

definition isEditCommand :: "string \<Rightarrow> bool" where
  "isEditCommand userInput =
     (startsWith (toLowerCase userInput) ''change '' \<or>
      startsWith (toLowerCase userInput) ''update '' \<or>
      includes_str (toLowerCase userInput) '' to '')"

definition isHelp :: "string \<Rightarrow> bool" where
  "isHelp userInput = (toLowerCase userInput = ''help'' \<or> toLowerCase userInput = ''?'')"

definition pushAdditional :: "string \<Rightarrow> fdata \<Rightarrow> fdata" where
  "pushAdditional userInput d =
     d\<lparr>fd_additional_requirements :=
         Some ((case fd_additional_requirements d of None \<Rightarrow> [] | Some xs \<Rightarrow> xs) @ [userInput])\<rparr>"

definition generateResponse :: "string \<Rightarrow> fstate \<Rightarrow> fstate \<times> call list" where
  "generateResponse userInput state =
     (let newData = data state in
      if step state = ''name'' then
        (\<lparr>step = ''description'', data = newData\<lparr>fd_name := Some userInput\<rparr>\<rparr>,
         [OnProjectUpdate [(''name'', JStr userInput)]])
      else if step state = ''description'' then
        (\<lparr>step = ''audience'', data = newData\<lparr>fd_description := Some userInput\<rparr>\<rparr>,
         [OnProjectUpdate [(''description'', JStr userInput)]])
      else if step state = ''audience'' then
        (\<lparr>step = ''data_sources'', data = newData\<lparr>fd_audience := Some userInput\<rparr>\<rparr>,
         [OnProjectUpdate [(''audience'', JStr userInput)]])
      else if step state = ''data_sources'' then
        (let v = map trim (split CHR '','' userInput) in
         (\<lparr>step = ''metrics'', data = newData\<lparr>fd_data_sources := Some v\<rparr>\<rparr>,
          [SaveFunctionalRequirements [(''data_sources'', JList v)]]))
      else if step state = ''metrics'' then
        (let v = map trim (split CHR '','' userInput) in
         (\<lparr>step = ''tabs'', data = newData\<lparr>fd_metrics := Some v\<rparr>\<rparr>,
          [SaveFunctionalRequirements [(''metrics'', JList v)]]))
      else if step state = ''tabs'' then
        (\<lparr>step = ''filters'', data = newData\<lparr>fd_tabs := Some userInput\<rparr>\<rparr>,
         [SaveTabs userInput])
      else if step state = ''filters'' then
        (let v = (if toLowerCase userInput = ''none'' then []
                  else map trim (split CHR '','' userInput)) in
         (\<lparr>step = ''appendix'', data = newData\<lparr>fd_filters := Some v\<rparr>\<rparr>, [SaveFilters v]))
      else if step state = ''appendix'' then
        (let v = includes_str (toLowerCase userInput) ''yes'' in
         (\<lparr>step = ''metric_logic'', data = newData\<lparr>fd_has_appendix := Some v\<rparr>\<rparr>,
          [OnProjectUpdate [(''has_appendix_tab'', JBool v)]]))
      else if step state = ''metric_logic'' then
        (let v = includes_str (toLowerCase userInput) ''yes'' in
         (\<lparr>step = ''additional'', data = newData\<lparr>fd_has_metric_logic := Some v\<rparr>\<rparr>,
          [OnProjectUpdate [(''has_metric_logic_tab'', JBool v)]]))
      else if step state = ''additional'' then
        (if toLowerCase userInput = ''done'' then (\<lparr>step = ''complete'', data = newData\<rparr>, [])
         else if isHelp userInput then (\<lparr>step = ''additional'', data = newData\<rparr>, [])
         else if isEditCommand userInput then handleChangeRequest userInput newData
         else (\<lparr>step = ''additional'', data = pushAdditional userInput newData\<rparr>,
               [SaveAdditionalRequirement userInput]))
      else if step state = ''change_request'' then handleChangeRequest userInput newData
      else if step state = ''complete'' then
        (if isHelp userInput then (\<lparr>step = ''complete'', data = newData\<rparr>, [])
         else if isEditCommand userInput then handleChangeRequest userInput newData
         else (\<lparr>step = ''complete'', data = pushAdditional userInput newData\<rparr>,
               [SaveAdditionalRequirement userInput]))
      else (state, []))"

text \<open>The chat component: the text of the input box, the typing flag and the
  conversation state. \<^verbatim>\<open>handleSend\<close> returns at once on a blank input or while a reply
  is pending; otherwise the reply is computed from the input as typed (not trimmed) and
  the new conversation state is stored. The one-second delay before the reply is not
  modelled: the handler is taken at its completion.\<close>

record 'd chat =
  input :: string
  isTyping :: bool
  conversationState :: "'d cstate"

definition handleSend :: "fdata chat \<Rightarrow> fdata chat \<times> call list" where
  "handleSend c =
     (if trim (input c) = [] \<or> isTyping c then (c, [])
      else (let r = generateResponse (input c) (conversationState c)
            in (c\<lparr>input := [], isTyping := False, conversationState := fst r\<rparr>, snd r)))"

subsection \<open>Saving tabs and filters\<close>

text \<open>Rows of \<^verbatim>\<open>dashboard_tabs\<close> and \<^verbatim>\<open>filters\<close> with the columns these functions write or
  test. The store fills a column that an insert leaves out with its default; the column
  \<^verbatim>\<open>filters.project_id\<close> was added by the migration without a default, so it is null
  there. Generated row keys are not read by these functions and are left out.\<close>

record tab_row =
  tab_project_id :: uuid
  tab_name :: string
  tab_order_index :: int

record filter_row =
  flt_tab_id :: "uuid option"
  flt_project_id :: "uuid option"
  flt_name :: string
  flt_data_source :: string
  flt_multi_select :: bool

definition tabNames :: "string \<Rightarrow> string list" where
  "tabNames tabsInput =
     (if includes_str tabsInput '','' then map trim (split CHR '','' tabsInput)
      else [trim tabsInput])"

definition tabsToInsert :: "uuid \<Rightarrow> string \<Rightarrow> tab_row list" where
  "tabsToInsert projectId tabsInput =
     map (\<lambda>(index, name). \<lparr>tab_project_id = projectId, tab_name = name,
                              tab_order_index = int index\<rparr>)
       (enumerate 0 (tabNames tabsInput))"

definition saveTabs :: "uuid \<Rightarrow> string \<Rightarrow> tab_row list \<Rightarrow> tab_row list" where
  "saveTabs projectId tabsInput tbl =
     filter (\<lambda>r. tab_project_id r \<noteq> projectId) tbl @ tabsToInsert projectId tabsInput"

text \<open>\<^verbatim>\<open>saveFilters\<close> runs inside the component of project \<open>projectId\<close>; neither its
  delete nor its insert mentions that project.\<close>

definition filtersToInsert :: "string list \<Rightarrow> filter_row list" where
  "filtersToInsert filterNames =
     map (\<lambda>name. \<lparr>flt_tab_id = None, flt_project_id = None, flt_name = name,
                    flt_data_source = [], flt_multi_select = False\<rparr>) filterNames"

definition saveFilters :: "uuid \<Rightarrow> string list \<Rightarrow> filter_row list \<Rightarrow> filter_row list" where
  "saveFilters projectId filterNames tbl =
     (let kept = filter (\<lambda>r. flt_tab_id r \<noteq> None) tbl
      in if filtersToInsert filterNames \<noteq> [] then kept @ filtersToInsert filterNames else kept)"

text \<open>The filters query of \<^verbatim>\<open>loadExistingRequirements\<close>: every row whose \<^verbatim>\<open>tab_id\<close> is
  null, with no condition on the project.\<close>

definition loadExistingRequirements_filters :: "uuid \<Rightarrow> filter_row list \<Rightarrow> string list option" where
  "loadExistingRequirements_filters projectId tbl =
     (let names = map flt_name (filter (\<lambda>r. flt_tab_id r = None) tbl)
      in if names \<noteq> [] then Some names else None)"

text \<open>The global filters that the document preview and the export show for a project:
  rows with that \<^verbatim>\<open>project_id\<close> and a null \<^verbatim>\<open>tab_id\<close>.\<close>

definition globalFilters :: "uuid \<Rightarrow> filter_row list \<Rightarrow> filter_row list" where
  "globalFilters projectId tbl =
     filter (\<lambda>r. flt_project_id r = Some projectId \<and> flt_tab_id r = None) tbl"

section \<open>Design requirements conversation (DesignRequirementsChat)\<close>

record ddata =
  dd_dashboard_size :: "string option"
  dd_color_palette :: "string list option"
  dd_fonts :: "string list option"
  dd_logo_url :: "string option"
  dd_logo_location :: "string option"
  dd_additional_requirements :: "string option"

definition empty_ddata :: ddata where
  "empty_ddata = \<lparr>dd_dashboard_size = None, dd_color_palette = None, dd_fonts = None,
     dd_logo_url = None, dd_logo_location = None, dd_additional_requirements = None\<rparr>"

type_synonym dstate = "ddata cstate"

definition determineNextStep_design :: "ddata \<Rightarrow> string" where
  "determineNextStep_design d =
     (if \<not> truthy_str (dd_dashboard_size d) then ''dashboard_size''
      else if \<not> truthy_list (dd_color_palette d) then ''color_palette''
      else if \<not> truthy_list (dd_fonts d) then ''fonts''
      else if \<not> truthy_str (dd_logo_url d) then ''logo''
      else if \<not> truthy_str (dd_additional_requirements d) then ''additional''
      else ''complete'')"

text \<open>The row of \<^verbatim>\<open>design_requirements\<close> of a project, if there is one, copied into the
  conversation data field by field; an empty value is not copied.\<close>

record design_row =
  dr_dashboard_size :: "string option"
  dr_color_palette :: "string list option"
  dr_fonts :: "string list option"
  dr_logo_url :: "string option"
  dr_logo_location :: "string option"
  dr_additional_requirements :: "string option"

definition nonempty_list :: "'a list option \<Rightarrow> 'a list option" where
  "nonempty_list v = (case v of None \<Rightarrow> None | Some xs \<Rightarrow> if length xs > 0 then Some xs else None)"

definition nonempty_str :: "string option \<Rightarrow> string option" where
  "nonempty_str v = (if truthy_str v then v else None)"

definition loadExistingRequirements_design :: "design_row option \<Rightarrow> ddata" where
  "loadExistingRequirements_design designReqs =
     (case designReqs of
        None \<Rightarrow> empty_ddata
      | Some r \<Rightarrow>
          \<lparr>dd_dashboard_size = nonempty_str (dr_dashboard_size r),
           dd_color_palette = nonempty_list (dr_color_palette r),
           dd_fonts = nonempty_list (dr_fonts r),
           dd_logo_url = nonempty_str (dr_logo_url r),
           dd_logo_location = nonempty_str (dr_logo_location r),
           dd_additional_requirements = nonempty_str (dr_additional_requirements r)\<rparr>)"

definition processUserInput :: "string \<Rightarrow> dstate \<Rightarrow> dstate \<times> call list" where
  "processUserInput userInput state =
     (let d = data state;
          colors = filter (\<lambda>c. c \<noteq> []) (map trim (split CHR '','' userInput));
          fonts = filter (\<lambda>f. f \<noteq> []) (map trim (split CHR '','' userInput));
          logoLower = toLowerCase userInput;
          next = (\<lambda>updatedData. \<lparr>step = determineNextStep_design updatedData, data = updatedData\<rparr>)
      in
      if step state = ''dashboard_size'' then
        (next (d\<lparr>dd_dashboard_size := Some userInput\<rparr>),
         [SaveDesignRequirements [(''dashboard_size'', JStr userInput)]])
      else if step state = ''color_palette'' then
        (next (d\<lparr>dd_color_palette := Some colors\<rparr>),
         [SaveDesignRequirements [(''color_palette'', JList colors)]])
      else if step state = ''fonts'' then
        (next (d\<lparr>dd_fonts := Some fonts\<rparr>),
         [SaveDesignRequirements [(''fonts'', JList fonts)]])
      else if step state = ''logo'' then
        (if includes_str logoLower ''none'' \<or> includes_str logoLower ''no'' then
           (next (d\<lparr>dd_logo_url := Some [], dd_logo_location := Some ''none''\<rparr>),
            [SaveDesignRequirements [(''logo_url'', JStr []), (''logo_location'', JStr ''none'')]])
         else
           (next (d\<lparr>dd_logo_location := Some userInput\<rparr>),
            [SaveDesignRequirements [(''logo_location'', JStr userInput)]]))
      else if step state = ''additional'' then
        (next (d\<lparr>dd_additional_requirements := Some userInput\<rparr>),
         [SaveDesignRequirements [(''additional_requirements'', JStr userInput)]])
      else if step state = ''complete'' then (state, [])
      else (next d, []))"

text \<open>\<^verbatim>\<open>handleSendMessage\<close> hands the trimmed input to \<^verbatim>\<open>processUserInput\<close>.\<close>

definition handleSendMessage :: "ddata chat \<Rightarrow> ddata chat \<times> call list" where
  "handleSendMessage c =
     (if trim (input c) = [] \<or> isTyping c then (c, [])
      else (let r = processUserInput (trim (input c)) (conversationState c)
            in (c\<lparr>input := [], isTyping := False, conversationState := fst r\<rparr>, snd r)))"

text \<open>Opening the design chat: the stored row is loaded and the step is computed.\<close>

definition initializeChat_design :: "design_row option \<Rightarrow> ddata chat" where
  "initializeChat_design designReqs =
     (let existingData = loadExistingRequirements_design designReqs
      in \<lparr>input = [], isTyping = False,
          conversationState = \<lparr>step = determineNextStep_design existingData, data = existingData\<rparr>\<rparr>)"

section \<open>Project lifecycle (ProjectEditor)\<close>

text \<open>
  A row of \<^verbatim>\<open>projects\<close>, without its timestamps. The editor keeps the row it shows in
  its state \<^verbatim>\<open>project\<close> (null until loaded) and the flag of the enhancement dialog; the
  tables \<^verbatim>\<open>projects\<close> and \<^verbatim>\<open>change_history\<close> stand beside them. The signed-in user, the
  key that the store generates for an inserted row and whether the store accepts a write
  are arguments of the handlers.
\<close>

record project_row =
  p_id :: uuid
  p_name :: string
  p_description :: string
  p_audience :: string
  p_status :: string
  p_version_number :: int
  p_parent_project_id :: "uuid option"
  p_has_appendix_tab :: bool
  p_has_metric_logic_tab :: bool
  p_created_by :: uuid
  p_updated_by :: "uuid option"

record change_row =
  ch_project_id :: uuid
  ch_changed_by :: uuid
  ch_change_type :: string
  ch_change_description :: string

record editor =
  project :: "project_row option"
  showEnhancementDialog :: bool
  saving :: bool
  projects :: "project_row list"
  change_history :: "change_row list"

definition createChangeHistory ::
  "uuid option \<Rightarrow> uuid \<Rightarrow> string \<Rightarrow> string \<Rightarrow> change_row list \<Rightarrow> change_row list" where
  "createChangeHistory user projectId changeType description tbl =
     (case user of
        None \<Rightarrow> tbl
      | Some u \<Rightarrow> tbl @ [\<lparr>ch_project_id = projectId, ch_changed_by = u,
                           ch_change_type = changeType, ch_change_description = description\<rparr>])"

text \<open>\<^verbatim>\<open>project.parent_project_id || project.id\<close>: a key is never an empty string, so the
  left operand is falsy exactly when it is null.\<close>

definition rootId :: "project_row \<Rightarrow> uuid" where
  "rootId p = (case p_parent_project_id p of None \<Rightarrow> p_id p | Some r \<Rightarrow> r)"

text \<open>The query of \<^verbatim>\<open>getLatestVersion\<close>: the rows whose id or parent is the root, ordered
  by \<^verbatim>\<open>version_number\<close> descending, limited to one row, read with \<^verbatim>\<open>maybeSingle\<close>. The
  result falls back to the editor's own version when there is no row or the number read
  is 0 (\<^verbatim>\<open>||\<close> on a number).\<close>

definition versionTree :: "uuid \<Rightarrow> project_row list \<Rightarrow> project_row list" where
  "versionTree root tbl = filter (\<lambda>r. p_id r = root \<or> p_parent_project_id r = Some root) tbl"

definition getLatestVersion :: "project_row option \<Rightarrow> project_row list \<Rightarrow> int" where
  "getLatestVersion proj tbl =
     (case proj of
        None \<Rightarrow> 1
      | Some p \<Rightarrow>
          (case take 1 (rev (sort (map p_version_number (versionTree (rootId p) tbl)))) of
             [] \<Rightarrow> p_version_number p
           | v # _ \<Rightarrow> if v = 0 then p_version_number p else v))"

definition createEnhancement :: "uuid option \<Rightarrow> uuid \<Rightarrow> bool \<Rightarrow> editor \<Rightarrow> editor" where
  "createEnhancement user newId accepted e =
     (case (project e, user) of
        (Some p, Some u) \<Rightarrow>
          (let latestVersion = getLatestVersion (project e) (projects e);
               newVersion = latestVersion + 1;
               enhancementProject =
                 \<lparr>p_id = newId,
                  p_name = p_name p @ '' - Enhancement v'' @ string_of_int newVersion,
                  p_description = p_description p,
                  p_audience = p_audience p,
                  p_status = ''draft'',
                  p_version_number = newVersion,
                  p_parent_project_id = Some (rootId p),
                  p_has_appendix_tab = p_has_appendix_tab p,
                  p_has_metric_logic_tab = p_has_metric_logic_tab p,
                  p_created_by = u,
                  p_updated_by = None\<rparr>
           in if accepted then
                e\<lparr>projects := projects e @ [enhancementProject],
                  change_history :=
                    createChangeHistory user newId ''version''
                      (''Created enhancement version '' @ string_of_int newVersion)
                      (change_history e),
                  project := Some enhancementProject,
                  showEnhancementDialog := False\<rparr>
              else e)
      | _ \<Rightarrow> e)"

text \<open>\<^verbatim>\<open>markAsDone\<close> is \<^verbatim>\<open>updateProject({status: 'done'})\<close>: the row with the editor's id
  is updated in the store, and on success the editor's copy is updated and an
  \<^verbatim>\<open>update\<close> entry is written.\<close>

definition markAsDone :: "uuid option \<Rightarrow> bool \<Rightarrow> editor \<Rightarrow> editor" where
  "markAsDone user accepted e =
     (case (project e, user) of
        (Some p, Some u) \<Rightarrow>
          (if accepted then
             e\<lparr>projects := map (\<lambda>r. if p_id r = p_id p
                                     then r\<lparr>p_status := ''done'', p_updated_by := Some u\<rparr> else r)
                               (projects e),
               project := Some (p\<lparr>p_status := ''done''\<rparr>),
               change_history :=
                 createChangeHistory user (p_id p) ''update'' ''Project updated'' (change_history e),
               saving := False\<rparr>
           else e\<lparr>saving := False\<rparr>)
      | _ \<Rightarrow> e)"

text \<open>What the user can do in the header and in the enhancement dialog. A button whose
  \<^verbatim>\<open>disabled\<close> attribute holds fires no handler, header and dialog are rendered only
  once the project is loaded, and the dialog's buttons exist only while the dialog is
  shown.\<close>

datatype event =
    ClickMarkAsDone bool
  | ClickCreateEnhancement
  | ClickDialogCancel
  | ClickDialogCreate uuid bool

fun fire :: "uuid option \<Rightarrow> event \<Rightarrow> editor \<Rightarrow> editor" where
  "fire user (ClickMarkAsDone accepted) e =
     (case project e of
        None \<Rightarrow> e
      | Some p \<Rightarrow> if p_status p = ''done'' \<or> saving e then e else markAsDone user accepted e)"
| "fire user ClickCreateEnhancement e =
     (case project e of
        None \<Rightarrow> e
      | Some p \<Rightarrow> if p_status p \<noteq> ''done'' then e else e\<lparr>showEnhancementDialog := True\<rparr>)"
| "fire user ClickDialogCancel e =
     (case project e of
        None \<Rightarrow> e
      | Some p \<Rightarrow> if showEnhancementDialog e then e\<lparr>showEnhancementDialog := False\<rparr> else e)"
| "fire user (ClickDialogCreate newId accepted) e =
     (case project e of
        None \<Rightarrow> e
      | Some p \<Rightarrow> if showEnhancementDialog e then createEnhancement user newId accepted e else e)"

primrec run :: "uuid option \<Rightarrow> event list \<Rightarrow> editor \<Rightarrow> editor" where
  "run user [] e = e"
| "run user (ev # evs) e = run user evs (fire user ev e)"

section \<open>Opening the requirements chat (RequirementsChat)\<close>

text \<open>
  The tables the chat reads when it is opened. \<^verbatim>\<open>maybeSingle\<close> gives the row when the
  query finds exactly one, and null otherwise (no row, or the error for several rows).
  The tabs are read ordered by \<^verbatim>\<open>order_index\<close>; tabs with the same order index are taken
  in table order. The two tab flags of a project are booleans that every insert sets, so
  the test \<^verbatim>\<open>!== null\<close> on them holds whenever the project's row is found.
\<close>

record functional_requirements_row =
  fr_project_id :: uuid
  fr_data_sources :: "string list option"
  fr_metrics :: "string list option"

record additional_requirement_row =
  ar_project_id :: uuid
  ar_category :: string
  ar_content :: string

record store =
  st_projects :: "project_row list"
  st_functional_requirements :: "functional_requirements_row list"
  st_dashboard_tabs :: "tab_row list"
  st_filters :: "filter_row list"
  st_additional_requirements :: "additional_requirement_row list"

definition maybeSingle :: "'a list \<Rightarrow> 'a option" where
  "maybeSingle rows = (case rows of [r] \<Rightarrow> Some r | _ \<Rightarrow> None)"

definition loadExistingRequirements :: "uuid \<Rightarrow> store \<Rightarrow> fdata" where
  "loadExistingRequirements projectId db =
     (let proj = maybeSingle (filter (\<lambda>r. p_id r = projectId) (st_projects db));
          funcReqs = maybeSingle (filter (\<lambda>r. fr_project_id r = projectId)
                                   (st_functional_requirements db));
          tabs = sort_key tab_order_index
                   (filter (\<lambda>r. tab_project_id r = projectId) (st_dashboard_tabs db));
          additionalReqs = filter (\<lambda>r. ar_project_id r = projectId \<and> ar_category r = ''functional'')
                             (st_additional_requirements db)
      in \<lparr>fd_name = (case proj of None \<Rightarrow> None
                      | Some p \<Rightarrow> if p_name p \<noteq> [] then Some (p_name p) else None),
          fd_description = (case proj of None \<Rightarrow> None
                      | Some p \<Rightarrow> if p_description p \<noteq> [] then Some (p_description p) else None),
          fd_audience = (case proj of None \<Rightarrow> None
                      | Some p \<Rightarrow> if p_audience p \<noteq> [] then Some (p_audience p) else None),
          fd_data_sources = (case funcReqs of None \<Rightarrow> None
                      | Some r \<Rightarrow> nonempty_list (fr_data_sources r)),
          fd_metrics = (case funcReqs of None \<Rightarrow> None
                      | Some r \<Rightarrow> nonempty_list (fr_metrics r)),
          fd_tabs = (if length tabs > 0 then Some (join '', '' (map tab_name tabs)) else None),
          fd_filters = loadExistingRequirements_filters projectId (st_filters db),
          fd_has_appendix = map_option p_has_appendix_tab proj,
          fd_has_metric_logic = map_option p_has_metric_logic_tab proj,
          fd_additional_requirements =
            (if length additionalReqs > 0 then Some (map ar_content additionalReqs) else None)\<rparr>)"

definition initializeChat :: "uuid \<Rightarrow> store \<Rightarrow> fdata chat" where
  "initializeChat projectId db =
     (let existingData = loadExistingRequirements projectId db
      in \<lparr>input = [], isTyping = False,
          conversationState = \<lparr>step = determineNextStep existingData, data = existingData\<rparr>\<rparr>)"

text \<open>A store with two projects. Project 1 has answered its filters step with
  \<^verbatim>\<open>Region\<close>; project 2 has answered name, description, audience, data sources, metrics
  and tabs (\<^verbatim>\<open>Overview\<close>), and nothing after them.\<close>

definition two_projects :: store where
  "two_projects =
     \<lparr>st_projects =
        [\<lparr>p_id = 1, p_name = ''Sales'', p_description = ''Sales KPIs'',
          p_audience = ''managers'', p_status = ''draft'', p_version_number = 1,
          p_parent_project_id = None, p_has_appendix_tab = False,
          p_has_metric_logic_tab = False, p_created_by = 7, p_updated_by = None\<rparr>,
         \<lparr>p_id = 2, p_name = ''Costs'', p_description = ''Cost overview'',
          p_audience = ''controllers'', p_status = ''draft'', p_version_number = 1,
          p_parent_project_id = None, p_has_appendix_tab = False,
          p_has_metric_logic_tab = False, p_created_by = 7, p_updated_by = None\<rparr>],
      st_functional_requirements =
        [\<lparr>fr_project_id = 1, fr_data_sources = Some [''CRM''], fr_metrics = Some [''Revenue'']\<rparr>,
         \<lparr>fr_project_id = 2, fr_data_sources = Some [''ERP''], fr_metrics = Some [''Spend'']\<rparr>],
      st_dashboard_tabs = saveTabs 2 ''Overview'' (saveTabs 1 ''Pipeline, Deals'' []),
      st_filters = saveFilters 1 [''Region''] [],
      st_additional_requirements = []\<rparr>"

text \<open>The design row of a project whose chat has answered size, palette, fonts and, with
  \<^verbatim>\<open>top left\<close>, the logo step.\<close>

definition logo_answered :: design_row where
  "logo_answered =
     \<lparr>dr_dashboard_size = Some ''1920x1080'', dr_color_palette = Some [''blue'', ''white''],
      dr_fonts = Some [''Arial''], dr_logo_url = None, dr_logo_location = Some ''top left'',
      dr_additional_requirements = None\<rparr>"

section \<open>Task ordering (TasksManager)\<close>

text \<open>A row of \<^verbatim>\<open>tasks\<close>. The component keeps its own list \<^verbatim>\<open>tasks\<close> of the rows it
  loaded and the id of the task being dragged; the table stands beside them.\<close>

record task =
  t_id :: uuid
  t_project_id :: uuid
  t_description :: string
  t_order_index :: int
  t_completed :: bool

record tasks_manager =
  tasks :: "task list"
  draggedTaskId :: "uuid option"
  tasks_table :: "task list"


text \<open>\<^verbatim>\<open>loadTasks\<close> reads the project's rows ordered by \<^verbatim>\<open>order_index\<close>; rows with the
  same order index are taken in table order.\<close>

definition loadTasks :: "uuid \<Rightarrow> tasks_manager \<Rightarrow> tasks_manager" where
  "loadTasks projectId m =
     m\<lparr>tasks := sort_key t_order_index (filter (\<lambda>r. t_project_id r = projectId) (tasks_table m))\<rparr>"










section \<open>The specification's notions\<close>

text \<open>
  The definitions of this section follow the words of the specification, to be compared
  with the functions above.
\<close>

subsection \<open>Edit commands by priority\<close>

text \<open>The editable fields in their priority order, each with the keyword looked for
  in the lower-cased input, the pattern handed to \<^verbatim>\<open>extractValue\<close>, the parsing of the
  extracted text and the field of the conversation data it is written to. The edit chosen
  for an input is the first field of the list whose keyword occurs and whose extracted
  value is not empty.\<close>

datatype efield = E_name | E_description | E_audience | E_data_sources | E_metrics | E_tabs | E_filters

definition priority :: "efield list" where
  "priority = [E_name, E_description, E_audience, E_data_sources, E_metrics, E_tabs, E_filters]"

fun keyword :: "efield \<Rightarrow> string" where
  "keyword E_name = ''name''"
| "keyword E_description = ''description''"
| "keyword E_audience = ''audience''"
| "keyword E_data_sources = ''data source''"
| "keyword E_metrics = ''metric''"
| "keyword E_tabs = ''tab''"
| "keyword E_filters = ''filter''"

fun pattern :: "efield \<Rightarrow> item list" where
  "pattern E_name = re_name"
| "pattern E_description = re_description"
| "pattern E_audience = re_audience"
| "pattern E_data_sources = re_data_sources"
| "pattern E_metrics = re_metrics"
| "pattern E_tabs = re_tabs"
| "pattern E_filters = re_filters"

definition list_valued :: "efield \<Rightarrow> bool" where
  "list_valued f = (f \<in> set [E_data_sources, E_metrics, E_filters])"

definition parse_value :: "efield \<Rightarrow> string \<Rightarrow> jsval" where
  "parse_value f v = (if list_valued f then JList (map trim (split CHR '','' v)) else JStr v)"

fun field_value :: "efield \<Rightarrow> fdata \<Rightarrow> jsval option" where
  "field_value E_name d = map_option JStr (fd_name d)"
| "field_value E_description d = map_option JStr (fd_description d)"
| "field_value E_audience d = map_option JStr (fd_audience d)"
| "field_value E_data_sources d = map_option JList (fd_data_sources d)"
| "field_value E_metrics d = map_option JList (fd_metrics d)"
| "field_value E_tabs d = map_option JStr (fd_tabs d)"
| "field_value E_filters d = map_option JList (fd_filters d)"

fun write_field :: "efield \<Rightarrow> string \<Rightarrow> fdata \<Rightarrow> fdata" where
  "write_field E_name v d = d\<lparr>fd_name := Some v\<rparr>"
| "write_field E_description v d = d\<lparr>fd_description := Some v\<rparr>"
| "write_field E_audience v d = d\<lparr>fd_audience := Some v\<rparr>"
| "write_field E_data_sources v d = d\<lparr>fd_data_sources := Some (map trim (split CHR '','' v))\<rparr>"
| "write_field E_metrics v d = d\<lparr>fd_metrics := Some (map trim (split CHR '','' v))\<rparr>"
| "write_field E_tabs v d = d\<lparr>fd_tabs := Some v\<rparr>"
| "write_field E_filters v d = d\<lparr>fd_filters := Some (map trim (split CHR '','' v))\<rparr>"

text \<open>The writes that persist an edit: scalar fields go to the project through the
  editor's callback, the two lists to the functional requirements row, tabs and filters
  through their delete-all, insert-all functions.\<close>

fun persist_calls :: "efield \<Rightarrow> string \<Rightarrow> call list" where
  "persist_calls E_name v = [OnProjectUpdate [(''name'', JStr v)], SaveFunctionalRequirements []]"
| "persist_calls E_description v = [OnProjectUpdate [(''description'', JStr v)]]"
| "persist_calls E_audience v = [OnProjectUpdate [(''audience'', JStr v)]]"
| "persist_calls E_data_sources v =
     [SaveFunctionalRequirements [(''data_sources'', JList (map trim (split CHR '','' v)))]]"
| "persist_calls E_metrics v =
     [SaveFunctionalRequirements [(''metrics'', JList (map trim (split CHR '','' v)))]]"
| "persist_calls E_tabs v = [SaveTabs v]"
| "persist_calls E_filters v = [SaveFilters (map trim (split CHR '','' v))]"

definition first_match :: "string \<Rightarrow> efield option" where
  "first_match userInput =
     find (\<lambda>f. includes_str (toLowerCase userInput) (keyword f) \<and>
                extractValue userInput (pattern f) \<noteq> []) priority"

subsection \<open>Dense order indexes\<close>




subsection \<open>The enhancement dialog\<close>

text \<open>The enhancement dialog is shown only while the editor's project is done.\<close>

definition dialog_only_when_done :: "editor \<Rightarrow> bool" where
  "dialog_only_when_done e =
     (showEnhancementDialog e \<longrightarrow> (\<exists>p. project e = Some p \<and> p_status p = ''done''))"

chapter \<open>Properties\<close>

section \<open>Re-opening a conversation\<close>

lemma loaded_filters_ignore_project:
  "fd_filters (loadExistingRequirements projectId db)
     = fd_filters (loadExistingRequirements otherProjectId db)"
  by (simp add: loadExistingRequirements_def loadExistingRequirements_filters_def Let_def)

lemma reopened_design_chat_step:
  "step (conversationState (initializeChat_design designReqs)) = ''additional''
     \<longleftrightarrow> (\<exists>r. designReqs = Some r \<and> truthy_str (dr_dashboard_size r)
            \<and> truthy_list (nonempty_list (dr_color_palette r))
            \<and> truthy_list (nonempty_list (dr_fonts r))
            \<and> truthy_str (dr_logo_url r) \<and> \<not> truthy_str (dr_additional_requirements r))"
  by (cases designReqs)
     (auto simp: initializeChat_design_def loadExistingRequirements_design_def Let_def
        determineNextStep_design_def empty_ddata_def nonempty_str_def truthy_str_def)

text \<open>
  Claim C1. Re-opening a flow loads the project's stored values and computes the step from
  what was loaded. The claim asks for the step of the first field, in the flow's order,
  that is still empty for the project.

  Functional flow: project 2 has answered every step up to the tabs and has never
  answered the filters step, so no row of the filters table belongs to it and its first
  empty field is the filters; project 1 has answered its own filters step with
  \<^verbatim>\<open>Region\<close>. Re-opening the chat of project 2 loads \<^verbatim>\<open>Region\<close> as its filters and
  resumes at the step \<^verbatim>\<open>additional\<close>, not at \<^verbatim>\<open>filters\<close>.

  Design flow: the stored record holds size, palette, fonts and the answer \<^verbatim>\<open>top left\<close>
  of the logo step, and no additional requirements, so its first empty field is the
  additional requirements. Re-opening the design chat resumes at the step \<^verbatim>\<open>logo\<close>, not
  at \<^verbatim>\<open>additional\<close>.
\<close>

theorem reopening_misses_first_gap:
  "st_filters two_projects = saveFilters 1 [''Region''] []
   \<and> filter (\<lambda>r. flt_project_id r = Some 2) (st_filters two_projects) = []
   \<and> map tab_name (filter (\<lambda>r. tab_project_id r = 2) (st_dashboard_tabs two_projects))
       = [''Overview'']
   \<and> fd_filters (data (conversationState (initializeChat 2 two_projects))) = Some [''Region'']
   \<and> step (conversationState (initializeChat 2 two_projects)) = ''additional''
   \<and> dr_logo_location logo_answered = Some ''top left''
   \<and> dr_additional_requirements logo_answered = None
   \<and> step (conversationState (initializeChat_design (Some logo_answered))) = ''logo''"
  unfolding two_projects_def logo_answered_def by code_simp

section \<open>Parsing of list answers\<close>

lemma functional_list_steps_keep_empty_tokens:
  "fd_data_sources (data (fst (generateResponse userInput \<lparr>step = ''data_sources'', data = d\<rparr>)))
     = Some (map trim (split CHR '','' userInput))
   \<and> fd_metrics (data (fst (generateResponse userInput \<lparr>step = ''metrics'', data = d\<rparr>)))
     = Some (map trim (split CHR '','' userInput))"
  by (simp add: generateResponse_def Let_def)

lemma design_list_steps_drop_empty_tokens:
  "dd_color_palette (data (fst (processUserInput userInput \<lparr>step = ''color_palette'', data = d\<rparr>)))
     = Some (filter (\<lambda>t. t \<noteq> []) (map trim (split CHR '','' userInput)))
   \<and> dd_fonts (data (fst (processUserInput userInput \<lparr>step = ''fonts'', data = d\<rparr>)))
     = Some (filter (\<lambda>t. t \<noteq> []) (map trim (split CHR '','' userInput)))"
  by (simp add: processUserInput_def Let_def)

text \<open>
  Claim C4. The claim asks that the answer \<^verbatim>\<open>" a , b ,,c"\<close> be parsed to the three
  tokens a, b, c at each of the four list steps. At the \<^verbatim>\<open>metrics\<close> step the code keeps
  the empty token between the two commas, while the \<^verbatim>\<open>color_palette\<close> step of the design
  flow drops it.
\<close>

theorem metrics_step_keeps_empty_token:
  "generateResponse '' a , b ,,c'' \<lparr>step = ''metrics'', data = empty_fdata\<rparr>
     = (\<lparr>step = ''tabs'', data = empty_fdata\<lparr>fd_metrics := Some [''a'', ''b'', [], ''c'']\<rparr>\<rparr>,
        [SaveFunctionalRequirements [(''metrics'', JList [''a'', ''b'', [], ''c''])]])
   \<and> dd_color_palette (data (fst (processUserInput '' a , b ,,c''
        \<lparr>step = ''color_palette'', data = empty_ddata\<rparr>))) = Some [''a'', ''b'', ''c'']"
  by code_simp

section \<open>Global filters\<close>

lemma saveFilters_global_rows_without_project:
  "globalFilters q (saveFilters projectId filterNames tbl) = []"
  by (auto simp: globalFilters_def saveFilters_def filtersToInsert_def Let_def filter_empty_conv)

lemma saveFilters_deletes_all_global_rows:
  "filter (\<lambda>r. flt_tab_id r = None) (saveFilters projectId filterNames tbl)
     = filtersToInsert filterNames"
  by (auto simp: saveFilters_def filtersToInsert_def Let_def filter_empty_conv filter_id_conv)

text \<open>
  Claim C7. Project 1 answers the filters step with \<^verbatim>\<open>Region\<close> while project 2 owns the
  global filter \<^verbatim>\<open>Country\<close>. The claim asks that the new row belong to project 1 and that
  project 2 keep its filter. The code deletes the row of project 2 and inserts a row with
  no project, which neither project's preview shows; and project 2, which never answered
  the filters step, is loaded with \<^verbatim>\<open>Region\<close> as its filters.
\<close>

theorem saveFilters_ignores_project:
  "snd (generateResponse ''Region'' \<lparr>step = ''filters'', data = empty_fdata\<rparr>)
     = [SaveFilters [''Region'']]
   \<and> saveFilters 1 [''Region'']
       [\<lparr>flt_tab_id = None, flt_project_id = Some 2, flt_name = ''Country'',
         flt_data_source = ''crm'', flt_multi_select = True\<rparr>]
     = [\<lparr>flt_tab_id = None, flt_project_id = None, flt_name = ''Region'',
         flt_data_source = [], flt_multi_select = False\<rparr>]
   \<and> globalFilters 1 (saveFilters 1 [''Region'']
       [\<lparr>flt_tab_id = None, flt_project_id = Some 2, flt_name = ''Country'',
         flt_data_source = ''crm'', flt_multi_select = True\<rparr>]) = []
   \<and> globalFilters 2 (saveFilters 1 [''Region'']
       [\<lparr>flt_tab_id = None, flt_project_id = Some 2, flt_name = ''Country'',
         flt_data_source = ''crm'', flt_multi_select = True\<rparr>]) = []
   \<and> loadExistingRequirements_filters 2 (saveFilters 1 [''Region'']
       [\<lparr>flt_tab_id = None, flt_project_id = Some 2, flt_name = ''Country'',
         flt_data_source = ''crm'', flt_multi_select = True\<rparr>]) = Some [''Region'']"
  by code_simp

section \<open>The design flow after the logo step\<close>

lemma logo_step_repeats:
  assumes "step state = ''logo''" and "\<not> truthy_str (dd_logo_url (data state))"
  shows "step (fst (processUserInput userInput state)) \<in>
           set [''dashboard_size'', ''color_palette'', ''fonts'', ''logo'']"
  using assms
  by (simp add: processUserInput_def determineNextStep_design_def Let_def truthy_str_def)

text \<open>
  Claim C8. A design conversation is opened on a record that holds size, palette and
  fonts, so it starts at the step \<^verbatim>\<open>logo\<close>. The claim asks that the step after an answer
  be \<^verbatim>\<open>additional\<close>. After the placement \<^verbatim>\<open>top left\<close>, and after \<^verbatim>\<open>none\<close>, the step is
  \<^verbatim>\<open>logo\<close> again: the answer fills \<^verbatim>\<open>logo_location\<close>, the next step is computed from
  \<^verbatim>\<open>logo_url\<close>.
\<close>

theorem logo_step_does_not_advance:
  "step (conversationState (initializeChat_design
      (Some \<lparr>dr_dashboard_size = Some ''1920x1080'', dr_color_palette = Some [''blue''],
             dr_fonts = Some [''Arial''], dr_logo_url = None, dr_logo_location = None,
             dr_additional_requirements = None\<rparr>))) = ''logo''
   \<and> step (conversationState (fst (handleSendMessage
      ((initializeChat_design
         (Some \<lparr>dr_dashboard_size = Some ''1920x1080'', dr_color_palette = Some [''blue''],
                dr_fonts = Some [''Arial''], dr_logo_url = None, dr_logo_location = None,
                dr_additional_requirements = None\<rparr>))\<lparr>input := ''top left''\<rparr>)))) = ''logo''
   \<and> step (conversationState (fst (handleSendMessage
      ((initializeChat_design
         (Some \<lparr>dr_dashboard_size = Some ''1920x1080'', dr_color_palette = Some [''blue''],
                dr_fonts = Some [''Arial''], dr_logo_url = None, dr_logo_location = None,
                dr_additional_requirements = None\<rparr>))\<lparr>input := ''none''\<rparr>)))) = ''logo''"
  by code_simp

section \<open>Edit commands\<close>

lemma handleChangeRequest_first_match:
  "handleChangeRequest userInput d =
     (case first_match userInput of
        None \<Rightarrow> (\<lparr>step = ''additional'', data = d\<rparr>, [])
      | Some f \<Rightarrow>
          (\<lparr>step = ''additional'', data = write_field f (extractValue userInput (pattern f)) d\<rparr>,
           persist_calls f (extractValue userInput (pattern f))))"
  by (simp add: handleChangeRequest_def first_match_def priority_def Let_def)

lemma write_field_frame:
  "g \<noteq> f \<Longrightarrow> field_value g (write_field f v d) = field_value g d"
  by (cases f; cases g; simp)

lemma write_field_value: "field_value f (write_field f v d) = Some (parse_value f v)"
  by (cases f; simp add: parse_value_def list_valued_def)

lemma write_field_rest:
  "fd_has_appendix (write_field f v d) = fd_has_appendix d \<and>
   fd_has_metric_logic (write_field f v d) = fd_has_metric_logic d \<and>
   fd_additional_requirements (write_field f v d) = fd_additional_requirements d"
  by (cases f; simp)

lemma first_match_metrics_example:
  "first_match ''change metrics to Revenue, Profit'' = Some E_metrics"
  by code_simp

lemma extractValue_metrics_example:
  "extractValue ''change metrics to Revenue, Profit'' re_metrics = ''Revenue, Profit''"
  by code_simp

lemma split_metrics_example:
  "map trim (split CHR '','' ''Revenue, Profit'') = [''Revenue'', ''Profit'']"
  by code_simp

lemma handleChangeRequest_metrics_example:
  "handleChangeRequest ''change metrics to Revenue, Profit'' d =
     (\<lparr>step = ''additional'', data = d\<lparr>fd_metrics := Some [''Revenue'', ''Profit'']\<rparr>\<rparr>,
      [SaveFunctionalRequirements [(''metrics'', JList [''Revenue'', ''Profit''])]])"
  by (simp only: handleChangeRequest_first_match first_match_metrics_example option.case
        pattern.simps extractValue_metrics_example write_field.simps persist_calls.simps
        split_metrics_example)

text \<open>
  Claim C5. The change interpreter handles the first field, in the order name,
  description, audience, data sources, metrics, tabs, filters, whose keyword occurs in the
  lower-cased input and whose extracted value is not empty: it writes the parsed value to
  that field, issues that field's writes and stays at the step \<^verbatim>\<open>additional\<close>; when
  there is no such field, the data is unchanged and nothing is written. Writing a field
  leaves every other field of the data as it was, so one message updates at most one
  field. The input \<^verbatim>\<open>change metrics to Revenue, Profit\<close> sets the metrics to Revenue and
  Profit and nothing else.
\<close>

theorem change_request_first_match_only:
  "handleChangeRequest userInput d =
     (case first_match userInput of
        None \<Rightarrow> (\<lparr>step = ''additional'', data = d\<rparr>, [])
      | Some f \<Rightarrow>
          (\<lparr>step = ''additional'', data = write_field f (extractValue userInput (pattern f)) d\<rparr>,
           persist_calls f (extractValue userInput (pattern f))))
   \<and> (\<forall>f v. field_value f (write_field f v d) = Some (parse_value f v)
          \<and> (\<forall>g. g \<noteq> f \<longrightarrow> field_value g (write_field f v d) = field_value g d)
          \<and> fd_has_appendix (write_field f v d) = fd_has_appendix d
          \<and> fd_has_metric_logic (write_field f v d) = fd_has_metric_logic d
          \<and> fd_additional_requirements (write_field f v d) = fd_additional_requirements d)
   \<and> handleChangeRequest ''change metrics to Revenue, Profit'' d =
       (\<lparr>step = ''additional'', data = d\<lparr>fd_metrics := Some [''Revenue'', ''Profit'']\<rparr>\<rparr>,
        [SaveFunctionalRequirements [(''metrics'', JList [''Revenue'', ''Profit''])]])"
  using handleChangeRequest_first_match write_field_frame write_field_value write_field_rest
    handleChangeRequest_metrics_example
  by simp

lemma first_match_sources_example:
  "first_match ''update data sources to SQL, Snowflake'' = Some E_data_sources"
  by code_simp

lemma extractValue_sources_example:
  "extractValue ''update data sources to SQL, Snowflake'' re_data_sources = ''SQL, Snowflake''"
  by code_simp

lemma split_sources_example:
  "map trim (split CHR '','' ''SQL, Snowflake'') = [''SQL'', ''Snowflake'']"
  by code_simp

text \<open>The input \<^verbatim>\<open>update data sources to SQL, Snowflake\<close> on a record with a name: the
  data sources are set, the name stays.\<close>

theorem change_request_first_match_only_witness:
  "handleChangeRequest ''update data sources to SQL, Snowflake''
       (empty_fdata\<lparr>fd_name := Some ''Sales''\<rparr>)
     = (\<lparr>step = ''additional'',
         data = empty_fdata\<lparr>fd_name := Some ''Sales'',
                            fd_data_sources := Some [''SQL'', ''Snowflake'']\<rparr>\<rparr>,
        [SaveFunctionalRequirements [(''data_sources'', JList [''SQL'', ''Snowflake''])]])
   \<and> field_value E_name (write_field E_data_sources ''SQL, Snowflake''
       (empty_fdata\<lparr>fd_name := Some ''Sales''\<rparr>)) = Some (JStr ''Sales'')"
  using change_request_first_match_only
      [of "''update data sources to SQL, Snowflake''" "empty_fdata\<lparr>fd_name := Some ''Sales''\<rparr>"]
    first_match_sources_example extractValue_sources_example split_sources_example
  by (simp add: empty_fdata_def)

section \<open>The tabs step\<close>

lemma tabsToInsert_names: "map tab_name (tabsToInsert pid inp) = tabNames inp"
  by (simp add: tabsToInsert_def comp_def case_prod_unfold enumerate_eq_zip)

lemma tabsToInsert_order_index:
  "map tab_order_index (tabsToInsert pid inp) = map int [0 ..< length (tabNames inp)]"
proof -
  have "map (\<lambda>p. int (fst p)) (zip [0 ..< length xs] xs) = map int [0 ..< length xs]"
    for xs :: "string list"
    by (rule nth_equalityI) simp_all
  then show ?thesis
    by (simp add: tabsToInsert_def comp_def case_prod_unfold enumerate_eq_zip)
qed

lemma tabsToInsert_length: "length (tabsToInsert pid inp) = length (tabNames inp)"
  by (simp add: tabsToInsert_def)

lemma tabsToInsert_project: "\<forall>r \<in> set (tabsToInsert pid inp). tab_project_id r = pid"
  by (auto simp: tabsToInsert_def)

lemma saveTabs_project_rows:
  "filter (\<lambda>r. tab_project_id r = pid) (saveTabs pid inp tbl) = tabsToInsert pid inp"
  using tabsToInsert_project[of pid inp]
  by (simp add: saveTabs_def filter_id_conv)

lemma saveTabs_other_rows:
  "filter (\<lambda>r. tab_project_id r \<noteq> pid) (saveTabs pid inp tbl)
     = filter (\<lambda>r. tab_project_id r \<noteq> pid) tbl"
  using tabsToInsert_project[of pid inp]
  by (simp add: saveTabs_def filter_empty_conv)

text \<open>
  Claim C9, as stated, makes the whole input the name of the single tab when there is no
  comma. The input \<^verbatim>\<open>" Sales "\<close> gives a tab whose name is not the input: the name is
  trimmed.
\<close>

theorem single_tab_name_is_trimmed:
  "map tab_name (filter (\<lambda>r. tab_project_id r = 1) (saveTabs 1 '' Sales '' [])) = [''Sales'']
   \<and> map tab_name (filter (\<lambda>r. tab_project_id r = 1) (saveTabs 1 '' Sales '' [])) \<noteq> ['' Sales '']"
  by code_simp

text \<open>
  Claim C9, amended. The tabs step stores the input as typed in the conversation data,
  moves to the step \<^verbatim>\<open>filters\<close> and saves the tabs. After the save the project's tabs
  are named, in input order, by the trimmed tokens of the input split at its commas when
  it has a comma, and by the one trimmed input otherwise (a number is a name like any
  other); their order indexes are \<open>0, 1, ..., n - 1\<close> in that order; and the tabs of
  every other project are as before.
\<close>

theorem tabs_step_saves_tabs:
  "generateResponse userInput \<lparr>step = ''tabs'', data = d\<rparr>
     = (\<lparr>step = ''filters'', data = d\<lparr>fd_tabs := Some userInput\<rparr>\<rparr>, [SaveTabs userInput])
   \<and> map tab_name (filter (\<lambda>r. tab_project_id r = projectId) (saveTabs projectId userInput tbl))
     = (if includes_str userInput '','' then map trim (split CHR '','' userInput)
        else [trim userInput])
   \<and> map tab_order_index (filter (\<lambda>r. tab_project_id r = projectId) (saveTabs projectId userInput tbl))
     = map int [0 ..< length (filter (\<lambda>r. tab_project_id r = projectId)
                                (saveTabs projectId userInput tbl))]
   \<and> filter (\<lambda>r. tab_project_id r \<noteq> projectId) (saveTabs projectId userInput tbl)
     = filter (\<lambda>r. tab_project_id r \<noteq> projectId) tbl"
proof (intro conjI)
  show "generateResponse userInput \<lparr>step = ''tabs'', data = d\<rparr>
     = (\<lparr>step = ''filters'', data = d\<lparr>fd_tabs := Some userInput\<rparr>\<rparr>, [SaveTabs userInput])"
    by (simp add: generateResponse_def)
  show "map tab_name (filter (\<lambda>r. tab_project_id r = projectId) (saveTabs projectId userInput tbl))
     = (if includes_str userInput '','' then map trim (split CHR '','' userInput)
        else [trim userInput])"
    by (simp only: saveTabs_project_rows tabsToInsert_names tabNames_def)
  show "map tab_order_index (filter (\<lambda>r. tab_project_id r = projectId) (saveTabs projectId userInput tbl))
     = map int [0 ..< length (filter (\<lambda>r. tab_project_id r = projectId)
                                (saveTabs projectId userInput tbl))]"
    by (simp only: saveTabs_project_rows tabsToInsert_order_index tabsToInsert_length)
  show "filter (\<lambda>r. tab_project_id r \<noteq> projectId) (saveTabs projectId userInput tbl)
     = filter (\<lambda>r. tab_project_id r \<noteq> projectId) tbl"
    by (rule saveTabs_other_rows)
qed

lemma tabs_example_numeric: "includes_str ''3'' '','' = False \<and> trim ''3'' = ''3''"
  by code_simp

text \<open>The answer \<^verbatim>\<open>3\<close> gives one tab named 3 with order index 0.\<close>

theorem tabs_step_saves_tabs_witness:
  "map tab_name (filter (\<lambda>r. tab_project_id r = 1) (saveTabs 1 ''3'' [])) = [''3'']
   \<and> map tab_order_index (filter (\<lambda>r. tab_project_id r = 1) (saveTabs 1 ''3'' [])) = [0]"
proof -
  have names: "map tab_name (filter (\<lambda>r. tab_project_id r = 1) (saveTabs 1 ''3'' [])) = [''3'']"
    using tabs_step_saves_tabs[of "''3''" empty_fdata 1 "[]"] tabs_example_numeric by simp
  then have "length (filter (\<lambda>r. tab_project_id r = 1) (saveTabs 1 ''3'' [])) = 1"
    by (metis length_map length_Cons list.size(3) One_nat_def)
  then have "map tab_order_index (filter (\<lambda>r. tab_project_id r = 1) (saveTabs 1 ''3'' [])) = [0]"
    using tabs_step_saves_tabs[of "''3''" empty_fdata 1 "[]"] by simp
  with names show ?thesis by simp
qed

section \<open>The filters step\<close>

lemma dropWhile_all_iff:
  "(\<forall>x \<in> set (dropWhile P xs). P x) \<longleftrightarrow> (\<forall>x \<in> set xs. P x)"
proof
  assume a: "\<forall>x \<in> set (dropWhile P xs). P x"
  have "dropWhile P xs = []"
  proof (rule ccontr)
    assume n: "dropWhile P xs \<noteq> []"
    then have "\<not> P (hd (dropWhile P xs))"
      by (rule hd_dropWhile)
    moreover have "hd (dropWhile P xs) \<in> set (dropWhile P xs)"
      using n by simp
    ultimately show False
      using a by blast
  qed
  then show "\<forall>x \<in> set xs. P x"
    by (simp add: dropWhile_eq_Nil_conv)
next
  assume "\<forall>x \<in> set xs. P x"
  then show "\<forall>x \<in> set (dropWhile P xs). P x"
    by (meson set_dropWhileD)
qed

lemma trim_Nil_iff: "trim s = [] \<longleftrightarrow> (\<forall>c \<in> set s. isWhiteSpace c)"
  by (simp add: trim_def dropWhile_eq_Nil_conv dropWhile_all_iff)

lemma toLowerChar_whitespace: "isWhiteSpace c \<Longrightarrow> toLowerChar c = c"
  by (auto simp: isWhiteSpace_def toLowerChar_def)

lemma lower_none_not_blank:
  assumes "toLowerCase s = ''none''"
  shows "trim s \<noteq> []"
proof
  assume "trim s = []"
  then have ws: "\<forall>c \<in> set s. isWhiteSpace c"
    by (simp add: trim_Nil_iff)
  then have "map toLowerChar s = s"
    by (simp add: toLowerChar_whitespace map_idI)
  with assms have "s = ''none''"
    by (simp add: toLowerCase_def)
  with ws show False
    by (simp add: isWhiteSpace_def)
qed

text \<open>
  Claim C10. At the filters step an input whose lower-cased form is \<^verbatim>\<open>none\<close> gives the
  empty filter list, and sending it advances the conversation to the step
  \<^verbatim>\<open>appendix\<close>; every other input is split at its commas and each token trimmed; and
  sending the empty string leaves the chat as it is, at the step \<^verbatim>\<open>filters\<close>, with no
  write.
\<close>

theorem filters_none_sentinel:
  "(toLowerCase userInput = ''none'' \<longrightarrow>
      generateResponse userInput \<lparr>step = ''filters'', data = d\<rparr>
        = (\<lparr>step = ''appendix'', data = d\<lparr>fd_filters := Some []\<rparr>\<rparr>, [SaveFilters []])
      \<and> handleSend \<lparr>input = userInput, isTyping = False,
                     conversationState = \<lparr>step = ''filters'', data = d\<rparr>\<rparr>
        = (\<lparr>input = [], isTyping = False,
            conversationState = \<lparr>step = ''appendix'', data = d\<lparr>fd_filters := Some []\<rparr>\<rparr>\<rparr>,
           [SaveFilters []]))
   \<and> (toLowerCase userInput \<noteq> ''none'' \<longrightarrow>
      generateResponse userInput \<lparr>step = ''filters'', data = d\<rparr>
        = (\<lparr>step = ''appendix'',
            data = d\<lparr>fd_filters := Some (map trim (split CHR '','' userInput))\<rparr>\<rparr>,
           [SaveFilters (map trim (split CHR '','' userInput))]))
   \<and> handleSend \<lparr>input = [], isTyping = t,
                  conversationState = \<lparr>step = ''filters'', data = d\<rparr>\<rparr>
        = (\<lparr>input = [], isTyping = t,
            conversationState = \<lparr>step = ''filters'', data = d\<rparr>\<rparr>, [])"
proof (intro conjI impI)
  assume n: "toLowerCase userInput = ''none''"
  show g: "generateResponse userInput \<lparr>step = ''filters'', data = d\<rparr>
        = (\<lparr>step = ''appendix'', data = d\<lparr>fd_filters := Some []\<rparr>\<rparr>, [SaveFilters []])"
    using n by (simp add: generateResponse_def)
  show "handleSend \<lparr>input = userInput, isTyping = False,
                     conversationState = \<lparr>step = ''filters'', data = d\<rparr>\<rparr>
        = (\<lparr>input = [], isTyping = False,
            conversationState = \<lparr>step = ''appendix'', data = d\<lparr>fd_filters := Some []\<rparr>\<rparr>\<rparr>,
           [SaveFilters []])"
    using lower_none_not_blank[OF n] by (simp add: handleSend_def g)
next
  assume "toLowerCase userInput \<noteq> ''none''"
  then show "generateResponse userInput \<lparr>step = ''filters'', data = d\<rparr>
        = (\<lparr>step = ''appendix'',
            data = d\<lparr>fd_filters := Some (map trim (split CHR '','' userInput))\<rparr>\<rparr>,
           [SaveFilters (map trim (split CHR '','' userInput))])"
    by (simp add: generateResponse_def Let_def)
next
  show "handleSend \<lparr>input = [], isTyping = t,
                  conversationState = \<lparr>step = ''filters'', data = d\<rparr>\<rparr>
        = (\<lparr>input = [], isTyping = t,
            conversationState = \<lparr>step = ''filters'', data = d\<rparr>\<rparr>, [])"
    by (simp add: handleSend_def trim_def)
qed

lemma filters_example_upper: "toLowerCase ''NONE'' = ''none''"
  by code_simp

lemma filters_example_list:
  "toLowerCase ''Region, Year'' \<noteq> ''none''
   \<and> map trim (split CHR '','' ''Region, Year'') = [''Region'', ''Year'']"
  by code_simp

text \<open>\<^verbatim>\<open>NONE\<close> gives the empty list and advances; \<^verbatim>\<open>Region, Year\<close> gives two filters.\<close>

theorem filters_none_sentinel_witness:
  "handleSend \<lparr>input = ''NONE'', isTyping = False,
               conversationState = \<lparr>step = ''filters'', data = empty_fdata\<rparr>\<rparr>
     = (\<lparr>input = [], isTyping = False,
         conversationState = \<lparr>step = ''appendix'', data = empty_fdata\<lparr>fd_filters := Some []\<rparr>\<rparr>\<rparr>,
        [SaveFilters []])
   \<and> generateResponse ''Region, Year'' \<lparr>step = ''filters'', data = empty_fdata\<rparr>
     = (\<lparr>step = ''appendix'', data = empty_fdata\<lparr>fd_filters := Some [''Region'', ''Year'']\<rparr>\<rparr>,
        [SaveFilters [''Region'', ''Year'']])"
  using filters_none_sentinel[of "''NONE''" empty_fdata]
    filters_none_sentinel[of "''Region, Year''" empty_fdata]
    filters_example_upper filters_example_list
  by simp

section \<open>Enhancement versions\<close>

lemma sorted_le_last:
  fixes ys :: "int list"
  assumes "sorted ys" and "y \<in> set ys"
  shows "y \<le> last ys"
proof -
  from assms(2) obtain i where i: "i < length ys" "ys ! i = y"
    by (auto simp: in_set_conv_nth)
  then have "ys \<noteq> []"
    by auto
  moreover have "ys ! i \<le> ys ! (length ys - 1)"
    using assms(1) i by (intro sorted_nth_mono) auto
  ultimately show ?thesis
    using i by (simp add: last_conv_nth)
qed

lemma last_sort_Max:
  fixes xs :: "int list"
  assumes "xs \<noteq> []"
  shows "last (sort xs) = Max (set xs)"
proof -
  have ne: "sort xs \<noteq> []"
    using assms by (metis length_sort length_0_conv)
  have "Max (set xs) = last (sort xs)"
  proof (rule Max_eqI)
    show "finite (set xs)"
      by simp
    have "last (sort xs) \<in> set (sort xs)"
      using ne by (rule last_in_set)
    then show "last (sort xs) \<in> set xs"
      by simp
    fix y
    assume "y \<in> set xs"
    then have "y \<in> set (sort xs)"
      by simp
    then show "y \<le> last (sort xs)"
      by (rule sorted_le_last[OF sorted_sort])
  qed
  then show ?thesis
    by simp
qed

lemma take1_rev: "ys \<noteq> [] \<Longrightarrow> take 1 (rev ys) = [last ys]"
  by (cases ys rule: rev_cases) simp_all

lemma versionTree_not_empty:
  assumes "r \<in> set tbl" and "p_id r = p_id p"
    and "p_parent_project_id r = p_parent_project_id p"
  shows "versionTree (rootId p) tbl \<noteq> []"
proof -
  have "r \<in> set (versionTree (rootId p) tbl)"
    using assms by (auto simp: versionTree_def rootId_def split: option.splits)
  then show ?thesis
    by auto
qed

lemma getLatestVersion_Max:
  assumes "versionTree (rootId p) tbl \<noteq> []"
    and "\<forall>r \<in> set (versionTree (rootId p) tbl). 1 \<le> p_version_number r"
  shows "getLatestVersion (Some p) tbl
           = Max (set (map p_version_number (versionTree (rootId p) tbl)))"
proof -
  let ?xs = "map p_version_number (versionTree (rootId p) tbl)"
  have ne: "?xs \<noteq> []"
    using assms(1) by simp
  then have sne: "sort ?xs \<noteq> []"
    by (metis length_sort length_0_conv)
  have t: "take 1 (rev (sort ?xs)) = [Max (set ?xs)]"
    using take1_rev[OF sne] last_sort_Max[OF ne] by simp
  have "Max (set ?xs) \<in> set ?xs"
    using ne by (intro Max_in) auto
  then have "1 \<le> Max (set ?xs)"
    using assms(2) by auto
  then have "Max (set ?xs) \<noteq> 0"
    by simp
  then show ?thesis
    using t by (simp add: getLatestVersion_def)
qed

text \<open>
  Claim C2. The editor shows project \<open>p\<close>, the table has a row with the id and the
  parent of \<open>p\<close>, its version numbers are at least 1, a user is signed in and the store
  accepts the insert. Let \<open>root\<close> be the
  parent of \<open>p\<close> if it has one and the id of \<open>p\<close> otherwise, and \<open>v\<close> one plus the
  greatest version number among the rows whose id or parent is \<open>root\<close>. Creating an
  enhancement appends to the table one project with version \<open>v\<close>, parent \<open>root\<close>, the
  name of \<open>p\<close> followed by \<^verbatim>\<open> - Enhancement v\<close> and \<open>v\<close>, status draft and the scalar
  fields of \<open>p\<close>, and appends one history entry of type \<^verbatim>\<open>version\<close> on the new project.
\<close>

theorem create_enhancement_versioning:
  fixes e :: editor and p :: project_row
  defines "root \<equiv> (case p_parent_project_id p of None \<Rightarrow> p_id p | Some r \<Rightarrow> r)"
  defines "v \<equiv> 1 + Max (set (map p_version_number
                 (filter (\<lambda>r. p_id r = root \<or> p_parent_project_id r = Some root) (projects e))))"
  assumes "project e = Some p"
    and "\<exists>r \<in> set (projects e).
           p_id r = p_id p \<and> p_parent_project_id r = p_parent_project_id p"
    and "\<forall>r \<in> set (projects e). 1 \<le> p_version_number r"
  shows "createEnhancement (Some u) newId True e =
    e\<lparr>projects := projects e @
         [\<lparr>p_id = newId, p_name = p_name p @ '' - Enhancement v'' @ string_of_int v,
           p_description = p_description p, p_audience = p_audience p, p_status = ''draft'',
           p_version_number = v, p_parent_project_id = Some root,
           p_has_appendix_tab = p_has_appendix_tab p,
           p_has_metric_logic_tab = p_has_metric_logic_tab p,
           p_created_by = u, p_updated_by = None\<rparr>],
      change_history := change_history e @
         [\<lparr>ch_project_id = newId, ch_changed_by = u, ch_change_type = ''version'',
           ch_change_description = ''Created enhancement version '' @ string_of_int v\<rparr>],
      project := Some \<lparr>p_id = newId, p_name = p_name p @ '' - Enhancement v'' @ string_of_int v,
           p_description = p_description p, p_audience = p_audience p, p_status = ''draft'',
           p_version_number = v, p_parent_project_id = Some root,
           p_has_appendix_tab = p_has_appendix_tab p,
           p_has_metric_logic_tab = p_has_metric_logic_tab p,
           p_created_by = u, p_updated_by = None\<rparr>,
      showEnhancementDialog := False\<rparr>"
proof -
  have r: "root = rootId p"
    by (simp add: root_def rootId_def)
  have "\<forall>r \<in> set (versionTree (rootId p) (projects e)). 1 \<le> p_version_number r"
    using assms(5) by (auto simp: versionTree_def)
  moreover have "versionTree (rootId p) (projects e) \<noteq> []"
    using assms(4) versionTree_not_empty by blast
  ultimately have "getLatestVersion (Some p) (projects e)
      = Max (set (map p_version_number (versionTree (rootId p) (projects e))))"
    by (intro getLatestVersion_Max)
  then have "getLatestVersion (project e) (projects e) + 1 = v"
    by (simp add: v_def r versionTree_def assms(3))
  then show ?thesis
    by (simp add: createEnhancement_def assms(3) Let_def createChangeHistory_def r)
qed

lemma string_of_int_3: "string_of_int 3 = ''3''"
  by code_simp

text \<open>Root 1 (version 1) and its enhancement 2 (version 2, parent 1, marked done, so that
  the stored row names who updated it and the editor's copy does not): an enhancement
  created from project 2 has version 3 and parent 1.\<close>

theorem create_enhancement_versioning_witness:
  "createEnhancement (Some 7) 3 True
     \<lparr>project = Some \<lparr>p_id = 2, p_name = ''Sales - Enhancement v2'', p_description = ''KPIs'',
         p_audience = ''managers'', p_status = ''done'', p_version_number = 2,
         p_parent_project_id = Some 1, p_has_appendix_tab = False,
         p_has_metric_logic_tab = True, p_created_by = 7, p_updated_by = None\<rparr>,
      showEnhancementDialog = True, saving = False,
      projects =
        [\<lparr>p_id = 1, p_name = ''Sales'', p_description = ''KPIs'',
          p_audience = ''managers'', p_status = ''done'', p_version_number = 1,
          p_parent_project_id = None, p_has_appendix_tab = False,
          p_has_metric_logic_tab = True, p_created_by = 7, p_updated_by = Some 7\<rparr>,
         \<lparr>p_id = 2, p_name = ''Sales - Enhancement v2'', p_description = ''KPIs'',
          p_audience = ''managers'', p_status = ''done'', p_version_number = 2,
          p_parent_project_id = Some 1, p_has_appendix_tab = False,
          p_has_metric_logic_tab = True, p_created_by = 7, p_updated_by = Some 7\<rparr>],
      change_history = []\<rparr>
   = \<lparr>project = Some \<lparr>p_id = 3, p_name = ''Sales - Enhancement v2 - Enhancement v3'',
         p_description = ''KPIs'', p_audience = ''managers'', p_status = ''draft'',
         p_version_number = 3, p_parent_project_id = Some 1, p_has_appendix_tab = False,
         p_has_metric_logic_tab = True, p_created_by = 7, p_updated_by = None\<rparr>,
      showEnhancementDialog = False, saving = False,
      projects =
        [\<lparr>p_id = 1, p_name = ''Sales'', p_description = ''KPIs'',
          p_audience = ''managers'', p_status = ''done'', p_version_number = 1,
          p_parent_project_id = None, p_has_appendix_tab = False,
          p_has_metric_logic_tab = True, p_created_by = 7, p_updated_by = Some 7\<rparr>,
         \<lparr>p_id = 2, p_name = ''Sales - Enhancement v2'', p_description = ''KPIs'',
          p_audience = ''managers'', p_status = ''done'', p_version_number = 2,
          p_parent_project_id = Some 1, p_has_appendix_tab = False,
          p_has_metric_logic_tab = True, p_created_by = 7, p_updated_by = Some 7\<rparr>,
         \<lparr>p_id = 3, p_name = ''Sales - Enhancement v2 - Enhancement v3'',
          p_description = ''KPIs'', p_audience = ''managers'', p_status = ''draft'',
          p_version_number = 3, p_parent_project_id = Some 1, p_has_appendix_tab = False,
          p_has_metric_logic_tab = True, p_created_by = 7, p_updated_by = None\<rparr>],
      change_history =
        [\<lparr>ch_project_id = 3, ch_changed_by = 7, ch_change_type = ''version'',
          ch_change_description = ''Created enhancement version 3''\<rparr>]\<rparr>"
  using create_enhancement_versioning
    [of "\<lparr>project = Some \<lparr>p_id = 2, p_name = ''Sales - Enhancement v2'', p_description = ''KPIs'',
         p_audience = ''managers'', p_status = ''done'', p_version_number = 2,
         p_parent_project_id = Some 1, p_has_appendix_tab = False,
         p_has_metric_logic_tab = True, p_created_by = 7, p_updated_by = None\<rparr>,
      showEnhancementDialog = True, saving = False,
      projects =
        [\<lparr>p_id = 1, p_name = ''Sales'', p_description = ''KPIs'',
          p_audience = ''managers'', p_status = ''done'', p_version_number = 1,
          p_parent_project_id = None, p_has_appendix_tab = False,
          p_has_metric_logic_tab = True, p_created_by = 7, p_updated_by = Some 7\<rparr>,
         \<lparr>p_id = 2, p_name = ''Sales - Enhancement v2'', p_description = ''KPIs'',
          p_audience = ''managers'', p_status = ''done'', p_version_number = 2,
          p_parent_project_id = Some 1, p_has_appendix_tab = False,
          p_has_metric_logic_tab = True, p_created_by = 7, p_updated_by = Some 7\<rparr>],
      change_history = []\<rparr>"
     "\<lparr>p_id = 2, p_name = ''Sales - Enhancement v2'', p_description = ''KPIs'',
         p_audience = ''managers'', p_status = ''done'', p_version_number = 2,
         p_parent_project_id = Some 1, p_has_appendix_tab = False,
         p_has_metric_logic_tab = True, p_created_by = 7, p_updated_by = None\<rparr>" 7 3]
    string_of_int_3
  by simp

section \<open>Enhancements only from done projects\<close>

lemma dialog_only_when_done_fire:
  "dialog_only_when_done e \<Longrightarrow> dialog_only_when_done (fire user ev e)"
  by (cases ev)
     (auto simp: dialog_only_when_done_def createEnhancement_def markAsDone_def Let_def
           split: option.splits)

lemma dialog_only_when_done_run:
  "dialog_only_when_done e \<Longrightarrow> dialog_only_when_done (run user evs e)"
  by (induction evs arbitrary: e) (simp_all add: dialog_only_when_done_fire)

text \<open>
  Claim C6. The editor is mounted with the enhancement dialog closed, and the user has
  clicked through any sequence of header and dialog buttons. If the project now shown is
  not done (a draft, in particular), clicking Create Enhancement changes nothing, neither
  the editor nor the tables, and the dialog whose Create button calls
  \<^verbatim>\<open>createEnhancement\<close> is not open, so that button changes nothing either. The guard is
  the \<^verbatim>\<open>disabled\<close> attribute of the header button.
\<close>

theorem draft_project_no_enhancement:
  assumes "\<not> showEnhancementDialog e0"
    and "project (run user evs e0) = Some p"
    and "p_status p \<noteq> ''done''"
  shows "fire user ClickCreateEnhancement (run user evs e0) = run user evs e0
     \<and> \<not> showEnhancementDialog (run user evs e0)
     \<and> (\<forall>newId accepted.
           fire user (ClickDialogCreate newId accepted) (run user evs e0) = run user evs e0)"
proof -
  have "dialog_only_when_done e0"
    using assms(1) by (simp add: dialog_only_when_done_def)
  then have "dialog_only_when_done (run user evs e0)"
    by (rule dialog_only_when_done_run)
  then have "\<not> showEnhancementDialog (run user evs e0)"
    using assms(2,3) by (auto simp: dialog_only_when_done_def)
  then show ?thesis
    using assms(2,3) by simp
qed

text \<open>A draft project: the click on Create Enhancement followed by a click where the
  dialog's Create button would be leaves the editor and both tables as they were.\<close>

theorem draft_project_no_enhancement_witness:
  "run (Some 7) [ClickCreateEnhancement, ClickDialogCreate 9 True]
     \<lparr>project = Some \<lparr>p_id = 1, p_name = ''Sales'', p_description = ''KPIs'',
         p_audience = ''managers'', p_status = ''draft'', p_version_number = 1,
         p_parent_project_id = None, p_has_appendix_tab = False,
         p_has_metric_logic_tab = False, p_created_by = 7, p_updated_by = None\<rparr>,
      showEnhancementDialog = False, saving = False,
      projects =
        [\<lparr>p_id = 1, p_name = ''Sales'', p_description = ''KPIs'',
          p_audience = ''managers'', p_status = ''draft'', p_version_number = 1,
          p_parent_project_id = None, p_has_appendix_tab = False,
          p_has_metric_logic_tab = False, p_created_by = 7, p_updated_by = None\<rparr>],
      change_history = []\<rparr>
   = \<lparr>project = Some \<lparr>p_id = 1, p_name = ''Sales'', p_description = ''KPIs'',
         p_audience = ''managers'', p_status = ''draft'', p_version_number = 1,
         p_parent_project_id = None, p_has_appendix_tab = False,
         p_has_metric_logic_tab = False, p_created_by = 7, p_updated_by = None\<rparr>,
      showEnhancementDialog = False, saving = False,
      projects =
        [\<lparr>p_id = 1, p_name = ''Sales'', p_description = ''KPIs'',
          p_audience = ''managers'', p_status = ''draft'', p_version_number = 1,
          p_parent_project_id = None, p_has_appendix_tab = False,
          p_has_metric_logic_tab = False, p_created_by = 7, p_updated_by = None\<rparr>],
      change_history = []\<rparr>"
  using draft_project_no_enhancement
    [of "\<lparr>project = Some \<lparr>p_id = 1, p_name = ''Sales'', p_description = ''KPIs'',
         p_audience = ''managers'', p_status = ''draft'', p_version_number = 1,
         p_parent_project_id = None, p_has_appendix_tab = False,
         p_has_metric_logic_tab = False, p_created_by = 7, p_updated_by = None\<rparr>,
      showEnhancementDialog = False, saving = False,
      projects =
        [\<lparr>p_id = 1, p_name = ''Sales'', p_description = ''KPIs'',
          p_audience = ''managers'', p_status = ''draft'', p_version_number = 1,
          p_parent_project_id = None, p_has_appendix_tab = False,
          p_has_metric_logic_tab = False, p_created_by = 7, p_updated_by = None\<rparr>],
      change_history = []\<rparr>" "Some 7" "[]"
      "\<lparr>p_id = 1, p_name = ''Sales'', p_description = ''KPIs'',
         p_audience = ''managers'', p_status = ''draft'', p_version_number = 1,
         p_parent_project_id = None, p_has_appendix_tab = False,
         p_has_metric_logic_tab = False, p_created_by = 7, p_updated_by = None\<rparr>"]
  by simp

section \<open>Order indexes of tasks\<close>






















end
